theory Spec2Isabelle
  imports Complex_Main "HOL-Library.Word"
begin

section \<open>Machine types of the two macros\<close>

text \<open>
  \<^verbatim>\<open>Int_t\<close> and \<^verbatim>\<open>UInt_t\<close> are 32-bit integers: words, read with \<open>sint\<close> where the
  code reads them as signed and with \<open>uint\<close> where it reads them as unsigned; their
  arithmetic wraps around.  A \<^verbatim>\<open>Double_t\<close> is idealised as a real number: the values
  the properties below depend on are integers of magnitude at most \<open>2 ^ 32\<close>, which a
  double holds exactly, and the random coordinates \<open>x\<close> and \<open>y\<close> are only carried
  around.
\<close>

type_synonym Int_t = "32 word"
type_synonym UInt_t = "32 word"
type_synonym Double_t = real

section \<open>The tree filled by \<^verbatim>\<open>genTree\<close> (TMVACrossEvaluation.C, lines 77 to 103)\<close>

text \<open>The three local variables of \<^verbatim>\<open>genTree\<close> whose addresses the branches hold.\<close>

datatype var = Var_x | Var_y | Var_eventID

record locals =
  loc_x :: Double_t
  loc_y :: Double_t
  loc_eventID :: UInt_t

datatype cell = CDouble Double_t | CUInt UInt_t

fun read_var :: "locals \<Rightarrow> var \<Rightarrow> cell" where
  "read_var m Var_x = CDouble (loc_x m)"
| "read_var m Var_y = CDouble (loc_y m)"
| "read_var m Var_eventID = CUInt (loc_eventID m)"

text \<open>
  What one leaf of an entry holds: a double for the leaf type \<^verbatim>\<open>D\<close>, a signed 32-bit
  integer (as its value) for the leaf type \<^verbatim>\<open>I\<close>.
\<close>

datatype leaf = LeafD Double_t | LeafI int

type_synonym entry = "(string \<times> leaf) list"

record TBranch =
  br_name :: string
  br_addr :: "var option"
  br_leaflist :: string

record TTree =
  t_branches :: "TBranch list"
  t_entries :: "entry list"

text \<open>
  Modelled from the spec: the class \<^verbatim>\<open>TTree\<close> of the framework is not among the sources
  (the spec calls it a pass-through external type); the tree is modelled by what
  \<^verbatim>\<open>genTree\<close> does with it: \<^verbatim>\<open>new TTree()\<close> is the empty tree, \<^verbatim>\<open>Branch(name, address,
  leaflist)\<close> adds a branch bound to the address of a local variable, \<^verbatim>\<open>Fill()\<close> appends
  one entry holding the present value at each branch address, read at the type its leaf
  list names, and \<^verbatim>\<open>ResetBranchAddresses()\<close> unbinds the addresses.
\<close>

definition TTree_new :: TTree where
  "TTree_new = \<lparr>t_branches = [], t_entries = []\<rparr>"

definition Branch :: "TTree \<Rightarrow> string \<Rightarrow> var \<Rightarrow> string \<Rightarrow> TTree" where
  "Branch t name addr leaflist =
     t\<lparr>t_branches := t_branches t @ [\<lparr>br_name = name, br_addr = Some addr, br_leaflist = leaflist\<rparr>]\<rparr>"

text \<open>The type letter of a leaf list such as \<^verbatim>\<open>x/D\<close>: the character after the slash.\<close>

definition leaf_type :: "string \<Rightarrow> char option" where
  "leaf_type l = (case dropWhile (\<lambda>c. c \<noteq> CHR ''/'') l of [s, ty] \<Rightarrow> Some ty | _ \<Rightarrow> None)"

text \<open>
  Reading a variable at a leaf type.  \<^verbatim>\<open>eventID\<close> is declared \<^verbatim>\<open>UInt_t\<close> and its branch
  has the leaf type \<^verbatim>\<open>I\<close>: the same four bytes are read as an \<^verbatim>\<open>Int_t\<close>, which is
  \<open>sint\<close> of the word.  A read across sizes (a double as \<^verbatim>\<open>I\<close>, an integer as \<^verbatim>\<open>D\<close>)
  is not modelled: it is \<open>None\<close>.
\<close>

fun fill_leaf :: "char \<Rightarrow> cell \<Rightarrow> leaf option" where
  "fill_leaf ty (CDouble r) = (if ty = CHR ''D'' then Some (LeafD r) else None)"
| "fill_leaf ty (CUInt w) = (if ty = CHR ''I'' then Some (LeafI (sint w)) else None)"

definition fill_branch :: "locals \<Rightarrow> TBranch \<Rightarrow> (string \<times> leaf) option" where
  "fill_branch m b =
     (case br_addr b of
        None \<Rightarrow> None
      | Some a \<Rightarrow>
          (case leaf_type (br_leaflist b) of
             None \<Rightarrow> None
           | Some ty \<Rightarrow> map_option (Pair (br_name b)) (fill_leaf ty (read_var m a))))"

definition Fill :: "TTree \<Rightarrow> locals \<Rightarrow> TTree option" where
  "Fill t m =
     (case those (map (fill_branch m) (t_branches t)) of
        None \<Rightarrow> None
      | Some e \<Rightarrow> Some (t\<lparr>t_entries := t_entries t @ [e]\<rparr>))"

definition ResetBranchAddresses :: "TTree \<Rightarrow> TTree" where
  "ResetBranchAddresses t = t\<lparr>t_branches := map (\<lambda>b. b\<lparr>br_addr := None\<rparr>) (t_branches t)\<rparr>"

text \<open>
  The generator \<^verbatim>\<open>TRandom3\<close> is not among the sources either: its constructor
  (\<open>TRandom3\<close>, from the seed) and its method \<open>Gaus\<close> (a value and the next state of
  the generator) are parameters of \<open>genTree\<close>.

  The loop \<^verbatim>\<open>for (Int_t n = 0; n < nPoints; ++n)\<close>: the counter is a signed 32-bit
  integer compared with \<^verbatim>\<open>nPoints\<close> as such; the body draws \<open>x\<close>, then \<open>y\<close>,
  pre-increments the unsigned \<^verbatim>\<open>eventID\<close> and fills the tree.
\<close>

function genTree_loop ::
  "('r \<Rightarrow> Double_t \<Rightarrow> Double_t \<Rightarrow> Double_t \<times> 'r) \<Rightarrow> Double_t \<Rightarrow> Double_t \<Rightarrow> Int_t \<Rightarrow>
     Int_t \<Rightarrow> 'r \<Rightarrow> locals \<Rightarrow> TTree \<Rightarrow> TTree option" where
  "genTree_loop Gaus offset scale nPoints n rng m data =
     (if n <s nPoints then
        (case Gaus rng offset scale of (vx, rng1) \<Rightarrow>
         case Gaus rng1 offset scale of (vy, rng2) \<Rightarrow>
           (let m' = m\<lparr>loc_x := vx, loc_y := vy, loc_eventID := loc_eventID m + 1\<rparr>
            in case Fill data m' of
                 None \<Rightarrow> None
               | Some data' \<Rightarrow> genTree_loop Gaus offset scale nPoints (n + 1) rng2 m' data'))
      else Some data)"
  by pat_completeness auto

lemma sint_succ_below:
  fixes n m :: "32 word"
  assumes "sint n < sint m"
  shows "sint (n + 1) = sint n + 1"
proof -
  have u: "sint m < 2 ^ 31" using sint_lt [of m] by simp
  have l: "- (2 ^ 31) \<le> sint n" using sint_ge [of n] by simp
  have "sint (n + 1) = signed_take_bit 31 (sint n + 1)"
    by (simp add: sint_word_ariths)
  also have "\<dots> = sint n + 1"
    using assms u l by (intro signed_take_bit_int_eq_self) auto
  finally show ?thesis .
qed

termination genTree_loop
  by (relation "measure (\<lambda>(G, off, sc, nPoints, n, r, m, d). nat (sint nPoints - sint n))")
     (auto simp: word_sless_alt sint_succ_below)

definition genTree ::
  "(UInt_t \<Rightarrow> 'r) \<Rightarrow> ('r \<Rightarrow> Double_t \<Rightarrow> Double_t \<Rightarrow> Double_t \<times> 'r) \<Rightarrow>
     Int_t \<Rightarrow> Double_t \<Rightarrow> Double_t \<Rightarrow> UInt_t \<Rightarrow> TTree option" where
  "genTree TRandom3 Gaus nPoints offset scale seed =
     (let rng = TRandom3 seed;
          m = \<lparr>loc_x = 0, loc_y = 0, loc_eventID = 0\<rparr>;
          data = TTree_new;
          data = Branch data ''x'' Var_x ''x/D'';
          data = Branch data ''y'' Var_y ''y/D'';
          data = Branch data ''eventID'' Var_eventID ''eventID/I''
      in map_option ResetBranchAddresses
           (genTree_loop Gaus offset scale nPoints 0 rng m data))"

subsection \<open>The loop of \<^verbatim>\<open>genTree\<close> fills one entry per iteration\<close>

text \<open>The branches \<^verbatim>\<open>genTree\<close> declares (lines 85 to 87), and the entry one \<^verbatim>\<open>Fill\<close> stores through them.\<close>

definition genTree_branches :: "TBranch list" where
  "genTree_branches =
     [\<lparr>br_name = ''x'', br_addr = Some Var_x, br_leaflist = ''x/D''\<rparr>,
      \<lparr>br_name = ''y'', br_addr = Some Var_y, br_leaflist = ''y/D''\<rparr>,
      \<lparr>br_name = ''eventID'', br_addr = Some Var_eventID, br_leaflist = ''eventID/I''\<rparr>]"

definition entry_of :: "locals \<Rightarrow> entry" where
  "entry_of m = [(''x'', LeafD (loc_x m)), (''y'', LeafD (loc_y m)),
                 (''eventID'', LeafI (sint (loc_eventID m)))]"

lemma Fill_genTree_branches:
  "t_branches t = genTree_branches \<Longrightarrow>
   Fill t m = Some (t\<lparr>t_entries := t_entries t @ [entry_of m]\<rparr>)"
  by (simp add: Fill_def genTree_branches_def fill_branch_def leaf_type_def entry_of_def)

lemma genTree_loop_entries:
  "t_branches data = genTree_branches \<Longrightarrow> loc_eventID m = n \<Longrightarrow>
   \<exists>data'. genTree_loop Gaus offset scale nPoints n rng m data = Some data'
     \<and> t_branches data' = genTree_branches
     \<and> map (map fst) (t_entries data') =
         map (map fst) (t_entries data) @
         replicate (nat (sint nPoints - sint n)) [''x'', ''y'', ''eventID'']
     \<and> map (\<lambda>e. map_of e ''eventID'') (t_entries data') =
         map (\<lambda>e. map_of e ''eventID'') (t_entries data) @
         map (\<lambda>i. Some (LeafI i)) [sint n + 1 .. sint nPoints]"
proof (induction Gaus offset scale nPoints n rng m data rule: genTree_loop.induct)
  case (1 Gaus offset scale nPoints n rng m data)
  show ?case
  proof (cases "n <s nPoints")
    case False
    then have "sint nPoints \<le> sint n" by (simp add: word_sless_alt)
    with False show ?thesis
      using "1.prems" by (simp add: genTree_loop.simps [of _ _ _ nPoints n])
  next
    case True
    then have lt: "sint n < sint nPoints" by (simp add: word_sless_alt)
    then have succ: "sint (n + 1) = sint n + 1" by (rule sint_succ_below)
    obtain vx rng1 where g1: "Gaus rng offset scale = (vx, rng1)" by (cases "Gaus rng offset scale")
    obtain vy rng2 where g2: "Gaus rng1 offset scale = (vy, rng2)" by (cases "Gaus rng1 offset scale")
    define m' where "m' = m\<lparr>loc_x := vx, loc_y := vy, loc_eventID := loc_eventID m + 1\<rparr>"
    define data1 where "data1 = data\<lparr>t_entries := t_entries data @ [entry_of m']\<rparr>"
    have fill: "Fill data m' = Some data1"
      using "1.prems"(1) by (simp add: Fill_genTree_branches data1_def)
    have b1: "t_branches data1 = genTree_branches" using "1.prems"(1) by (simp add: data1_def)
    have e1: "loc_eventID m' = n + 1" using "1.prems"(2) by (simp add: m'_def)
    from "1.IH" [OF True g1 [symmetric] g2 [symmetric] m'_def fill b1 e1]
    obtain data' where
      r: "genTree_loop Gaus offset scale nPoints (n + 1) rng2 m' data1 = Some data'"
      and b: "t_branches data' = genTree_branches"
      and k: "map (map fst) (t_entries data') =
         map (map fst) (t_entries data1) @
         replicate (nat (sint nPoints - sint (n + 1))) [''x'', ''y'', ''eventID'']"
      and i: "map (\<lambda>e. map_of e ''eventID'') (t_entries data') =
         map (\<lambda>e. map_of e ''eventID'') (t_entries data1) @
         map (\<lambda>i. Some (LeafI i)) [sint (n + 1) + 1 .. sint nPoints]"
      by blast
    have run: "genTree_loop Gaus offset scale nPoints n rng m data = Some data'"
      using True g1 g2 fill r
      by (simp add: genTree_loop.simps [of _ _ _ nPoints n] m'_def Let_def)
    have rep: "replicate (nat (sint nPoints - sint n)) [''x'', ''y'', ''eventID''] =
        [''x'', ''y'', ''eventID''] # replicate (nat (sint nPoints - sint (n + 1))) [''x'', ''y'', ''eventID'']"
    proof -
      have "nat (sint nPoints - sint n) = Suc (nat (sint nPoints - sint (n + 1)))"
        using lt succ by simp
      then show ?thesis by simp
    qed
    have upt: "[sint n + 1 .. sint nPoints] = (sint n + 1) # [sint (n + 1) + 1 .. sint nPoints]"
      using lt succ by (simp add: upto_rec1)
    have k': "map (map fst) (t_entries data') =
         map (map fst) (t_entries data) @
         replicate (nat (sint nPoints - sint n)) [''x'', ''y'', ''eventID'']"
      using k by (simp add: rep data1_def entry_of_def)
    have i': "map (\<lambda>e. map_of e ''eventID'') (t_entries data') =
         map (\<lambda>e. map_of e ''eventID'') (t_entries data) @
         map (\<lambda>i. Some (LeafI i)) [sint n + 1 .. sint nPoints]"
      using i e1 succ by (simp add: upt data1_def entry_of_def)
    from run b k' i' show ?thesis by blast
  qed
qed

text \<open>
  \<^verbatim>\<open>genTree\<close> returns a tree for every argument: its entries carry the three fields in
  the order of the branches, and their identifiers count up from 1.
\<close>

lemma genTree_result:
  "\<exists>t. genTree TRandom3 Gaus nPoints offset scale seed = Some t
     \<and> map (map fst) (t_entries t) = replicate (nat (sint nPoints)) [''x'', ''y'', ''eventID'']
     \<and> map (\<lambda>e. map_of e ''eventID'') (t_entries t) = map (\<lambda>i. Some (LeafI i)) [1 .. sint nPoints]"
proof -
  define m0 where "m0 = \<lparr>loc_x = 0, loc_y = 0, loc_eventID = 0\<rparr>"
  define d0 where "d0 = Branch (Branch (Branch TTree_new ''x'' Var_x ''x/D'') ''y'' Var_y ''y/D'')
     ''eventID'' Var_eventID ''eventID/I''"
  have b0: "t_branches d0 = genTree_branches"
    by (simp add: d0_def Branch_def TTree_new_def genTree_branches_def)
  have e0: "t_entries d0 = []"
    by (simp add: d0_def Branch_def TTree_new_def)
  have i0: "loc_eventID m0 = 0" by (simp add: m0_def)
  from genTree_loop_entries [OF b0 i0, of Gaus offset scale nPoints "TRandom3 seed"]
  obtain data' where
    r: "genTree_loop Gaus offset scale nPoints 0 (TRandom3 seed) m0 d0 = Some data'"
    and k: "map (map fst) (t_entries data') =
         replicate (nat (sint nPoints)) [''x'', ''y'', ''eventID'']"
    and i: "map (\<lambda>e. map_of e ''eventID'') (t_entries data') =
         map (\<lambda>i. Some (LeafI i)) [1 .. sint nPoints]"
    by (auto simp: e0)
  have "genTree TRandom3 Gaus nPoints offset scale seed = Some (ResetBranchAddresses data')"
    using r by (simp add: genTree_def m0_def d0_def Let_def)
  moreover have "t_entries (ResetBranchAddresses data') = t_entries data'"
    by (simp add: ResetBranchAddresses_def)
  ultimately show ?thesis using k i by simp
qed

subsection \<open>Properties of the generated tree\<close>

text \<open>
  C5: the data generator \<^verbatim>\<open>genTree(nPoints, offset, scale, seed)\<close> returns a tree, and
  for every \<^verbatim>\<open>nPoints\<close> that is not negative the tree has exactly \<^verbatim>\<open>nPoints\<close> entries,
  each with the fields \<open>x\<close>, \<open>y\<close> and \<open>eventID\<close>.  This holds for every generator
  of random numbers.
\<close>

theorem genTree_nPoints_entries:
  "0 \<le> sint nPoints \<Longrightarrow>
   \<exists>t. genTree TRandom3 Gaus nPoints offset scale seed = Some t
     \<and> int (length (t_entries t)) = sint nPoints
     \<and> map (map fst) (t_entries t) = replicate (length (t_entries t)) [''x'', ''y'', ''eventID'']"
proof -
  assume nn: "0 \<le> sint nPoints"
  from genTree_result [of TRandom3 Gaus nPoints offset scale seed]
  obtain t where r: "genTree TRandom3 Gaus nPoints offset scale seed = Some t"
    and k: "map (map fst) (t_entries t) = replicate (nat (sint nPoints)) [''x'', ''y'', ''eventID'']"
    by blast
  have "length (map (map fst) (t_entries t)) = nat (sint nPoints)"
    by (simp only: k length_replicate)
  then have len: "length (t_entries t) = nat (sint nPoints)" by simp
  with nn r k show ?thesis by simp
qed

text \<open>The theorem at \<^verbatim>\<open>nPoints = 3\<close>, with a counter in place of the random generator.\<close>

theorem genTree_nPoints_entries_witness:
  "0 \<le> sint (3 :: Int_t) \<and>
   (\<exists>t. genTree (\<lambda>seed. unat seed) (\<lambda>r offset scale. (offset + scale * real r, Suc r)) 3 1 1 100 = Some t
     \<and> int (length (t_entries t)) = sint (3 :: Int_t)
     \<and> map (map fst) (t_entries t) = replicate (length (t_entries t)) [''x'', ''y'', ''eventID''])"
  using genTree_nPoints_entries [of 3 "\<lambda>seed. unat seed" "\<lambda>r offset scale. (offset + scale * real r, Suc r)" 1 1 100]
  by simp

text \<open>
  C9: \<^verbatim>\<open>eventID\<close> is incremented before each \<^verbatim>\<open>Fill\<close>, so the identifiers stored in
  the tree are 1, 2, ..., \<^verbatim>\<open>nPoints\<close> in this order, and no entry has the identifier 0.
  The unsigned counter never wraps: it stays below \<^verbatim>\<open>nPoints\<close>, a signed 32-bit
  integer, so the value read back through the branch of type \<^verbatim>\<open>I\<close> is the counter.
\<close>

theorem genTree_eventID_sequence:
  "\<exists>t. genTree TRandom3 Gaus nPoints offset scale seed = Some t
     \<and> map (\<lambda>e. map_of e ''eventID'') (t_entries t) = map (\<lambda>i. Some (LeafI i)) [1 .. sint nPoints]
     \<and> Some (LeafI 0) \<notin> set (map (\<lambda>e. map_of e ''eventID'') (t_entries t))"
proof -
  from genTree_result [of TRandom3 Gaus nPoints offset scale seed]
  obtain t where r: "genTree TRandom3 Gaus nPoints offset scale seed = Some t"
    and i: "map (\<lambda>e. map_of e ''eventID'') (t_entries t) = map (\<lambda>i. Some (LeafI i)) [1 .. sint nPoints]"
    by blast
  have z: "Some (LeafI 0) \<notin> set (map (\<lambda>i. Some (LeafI i)) [1 .. sint nPoints])"
    by auto
  have "Some (LeafI 0) \<notin> set (map (\<lambda>e. map_of e ''eventID'') (t_entries t))"
    unfolding i by (rule z)
  with r i show ?thesis by blast
qed

section \<open>The split expression (TMVACrossEvaluation.C, lines 163 to 165)\<close>

definition numFolds :: UInt_t where
  "numFolds = 2"

definition analysisType :: string where
  "analysisType = ''Classification''"

definition splitExpr :: string where
  "splitExpr = ''int(fabs([eventID]))%int([NumFolds])''"

subsection \<open>Syntax\<close>

text \<open>
  Modelled from the spec: the class \<^verbatim>\<open>TFormula\<close> that reads the expression is not among
  the sources.  The spec calls the split expression a single arithmetic expression and
  writes it in the notation of the programming language; the macro's header says that it
  can be any valid formula whose parts are defined.  The fragment the macro uses is
  modelled: a parameter \<^verbatim>\<open>[name]\<close>, the calls \<^verbatim>\<open>int(...)\<close> and \<^verbatim>\<open>fabs(...)\<close>, and the
  binary operator \<^verbatim>\<open>%\<close>, which associates to the left.  The parser works on the string
  of the source; its first argument bounds the depth of the recursion.
\<close>

datatype formula = Par string | Fabs formula | IntCast formula | Mod formula formula

fun formula_params :: "formula \<Rightarrow> string list" where
  "formula_params (Par n) = [n]"
| "formula_params (Fabs f) = formula_params f"
| "formula_params (IntCast f) = formula_params f"
| "formula_params (Mod f g) = formula_params f @ formula_params g"

definition strip_prefix :: "string \<Rightarrow> string \<Rightarrow> string option" where
  "strip_prefix p s = (if take (length p) s = p then Some (drop (length p) s) else None)"

fun parse_expr :: "nat \<Rightarrow> string \<Rightarrow> (formula \<times> string) option"
  and parse_rest :: "nat \<Rightarrow> formula \<Rightarrow> string \<Rightarrow> (formula \<times> string) option"
  and parse_atom :: "nat \<Rightarrow> string \<Rightarrow> (formula \<times> string) option"
  and parse_call :: "nat \<Rightarrow> (formula \<Rightarrow> formula) \<Rightarrow> string \<Rightarrow> (formula \<times> string) option" where
  "parse_expr 0 s = None"
| "parse_expr (Suc k) s =
     (case parse_atom k s of None \<Rightarrow> None | Some (f, r) \<Rightarrow> parse_rest k f r)"
| "parse_rest 0 f s = None"
| "parse_rest (Suc k) f s =
     (case strip_prefix ''%'' s of
        None \<Rightarrow> Some (f, s)
      | Some r \<Rightarrow> (case parse_atom k r of None \<Rightarrow> None | Some (g, r') \<Rightarrow> parse_rest k (Mod f g) r'))"
| "parse_atom 0 s = None"
| "parse_atom (Suc k) s =
     (case strip_prefix ''['' s of
        Some r \<Rightarrow>
          (case strip_prefix '']'' (dropWhile (\<lambda>c. c \<noteq> CHR '']'') r) of
             None \<Rightarrow> None
           | Some r' \<Rightarrow> Some (Par (takeWhile (\<lambda>c. c \<noteq> CHR '']'') r), r'))
      | None \<Rightarrow>
          (case strip_prefix ''int('' s of
             Some r \<Rightarrow> parse_call k IntCast r
           | None \<Rightarrow>
               (case strip_prefix ''fabs('' s of
                  Some r \<Rightarrow> parse_call k Fabs r
                | None \<Rightarrow> None)))"
| "parse_call 0 c s = None"
| "parse_call (Suc k) c s =
     (case parse_expr k s of
        None \<Rightarrow> None
      | Some (f, r) \<Rightarrow> (case strip_prefix '')'' r of None \<Rightarrow> None | Some r' \<Rightarrow> Some (c f, r')))"

definition parse_formula :: "string \<Rightarrow> formula option" where
  "parse_formula s =
     (case parse_expr (Suc (3 * length s)) s of
        Some (f, []) \<Rightarrow> Some f
      | _ \<Rightarrow> None)"

subsection \<open>Evaluation\<close>

text \<open>
  Modelled from the spec: the evaluation of a formula (\<^verbatim>\<open>TFormula::EvalPar\<close>) is not among
  the sources.  The expression is read as the expression of the programming language it
  is written in.  A parameter is a double.  \<^verbatim>\<open>fabs\<close> is the absolute value of a double.
  \<^verbatim>\<open>int(...)\<close> converts a double to the 32-bit \<^verbatim>\<open>int\<close> by dropping the fraction; the
  conversion is undefined when the result does not fit, which is \<open>None\<close> here.  \<^verbatim>\<open>%\<close> is
  the remainder of the division of two \<^verbatim>\<open>int\<close> that truncates towards zero, with the sign
  of the dividend; it is undefined for the divisor 0, and for the least \<^verbatim>\<open>int\<close> divided
  by \<open>-1\<close>; applied to a double it is not an expression of the language.
\<close>

datatype val = DblV Double_t | IntV int

definition c_int :: "Double_t \<Rightarrow> int option" where
  "c_int r =
     (let t = (if 0 \<le> r then \<lfloor>r\<rfloor> else \<lceil>r\<rceil>)
      in if - (2 ^ 31) \<le> t \<and> t < 2 ^ 31 then Some t else None)"

definition c_mod :: "int \<Rightarrow> int \<Rightarrow> int option" where
  "c_mod a b =
     (if b = 0 \<or> (a = - (2 ^ 31) \<and> b = - 1) then None
      else Some (sgn a * (\<bar>a\<bar> mod \<bar>b\<bar>)))"

fun EvalPar :: "(string \<Rightarrow> Double_t option) \<Rightarrow> formula \<Rightarrow> val option" where
  "EvalPar p (Par n) = map_option DblV (p n)"
| "EvalPar p (Fabs f) =
     (case EvalPar p f of
        None \<Rightarrow> None
      | Some (DblV r) \<Rightarrow> Some (DblV \<bar>r\<bar>)
      | Some (IntV i) \<Rightarrow> Some (DblV \<bar>of_int i\<bar>))"
| "EvalPar p (IntCast f) =
     (case EvalPar p f of
        None \<Rightarrow> None
      | Some (DblV r) \<Rightarrow> map_option IntV (c_int r)
      | Some (IntV i) \<Rightarrow> Some (IntV i))"
| "EvalPar p (Mod f g) =
     (case EvalPar p f of
        Some (IntV a) \<Rightarrow>
          (case EvalPar p g of
             Some (IntV b) \<Rightarrow> map_option IntV (c_mod a b)
           | _ \<Rightarrow> None)
      | _ \<Rightarrow> None)"

text \<open>
  Modelled from the spec: the code of the framework that evaluates the split expression
  for an event is not among the sources.  As the spec says, the expression is evaluated
  over a spectator field; after the macro's header (lines 41 to 43) it has access to all
  spectators and variables defined in the dataloader, and to the number of folds under
  the names \<^verbatim>\<open>NumFolds\<close> and \<^verbatim>\<open>numFolds\<close>.  An event is an entry of a tree; a name that
  is not declared, or that the event does not have, is undefined.
\<close>

fun leaf_value :: "leaf \<Rightarrow> Double_t" where
  "leaf_value (LeafD r) = r"
| "leaf_value (LeafI i) = of_int i"

definition split_params :: "string list \<Rightarrow> int \<Rightarrow> entry \<Rightarrow> string \<Rightarrow> Double_t option" where
  "split_params declared nf ev name =
     (if name = ''NumFolds'' \<or> name = ''numFolds'' then Some (of_int nf)
      else if name \<in> set declared then map_option leaf_value (map_of ev name)
      else None)"

definition EvalSplit :: "string \<Rightarrow> string list \<Rightarrow> int \<Rightarrow> entry \<Rightarrow> val option" where
  "EvalSplit expr declared nf ev =
     (case parse_formula expr of
        None \<Rightarrow> None
      | Some f \<Rightarrow> EvalPar (split_params declared nf ev) f)"

text \<open>The fields of an event a split expression refers to: its parameters but the number of folds.\<close>

definition split_fields :: "string \<Rightarrow> string list option" where
  "split_fields expr =
     map_option (\<lambda>f. filter (\<lambda>n. n \<noteq> ''NumFolds'' \<and> n \<noteq> ''numFolds'') (formula_params f))
       (parse_formula expr)"

text \<open>
  The expression as the spec writes it, \<^verbatim>\<open>int(fabs(eventID)) % numFolds\<close>, read as the
  configured expression is read: \<^verbatim>\<open>fabs\<close> is the absolute value of the identifier as a
  double, \<^verbatim>\<open>int(...)\<close> is the conversion to the 32-bit \<^verbatim>\<open>int\<close>, undefined when the value
  does not fit, and \<^verbatim>\<open>%\<close> is the remainder of two \<^verbatim>\<open>int\<close>.  The spec applies \<^verbatim>\<open>%\<close> to
  \<^verbatim>\<open>numFolds\<close> itself: the number of folds is an operand of \<^verbatim>\<open>%\<close>, an \<^verbatim>\<open>int\<close>, and
  is not converted.
\<close>

definition spec_fold :: "int \<Rightarrow> Int_t \<Rightarrow> int option" where
  "spec_fold eventID nf =
     (case c_int \<bar>real_of_int eventID\<bar> of
        None \<Rightarrow> None
      | Some a \<Rightarrow> c_mod a (sint nf))"

section \<open>The dataloader (TMVACrossEvaluation.C, lines 119 to 149)\<close>

text \<open>
  Modelled from the spec: the class \<^verbatim>\<open>TMVA::DataLoader\<close> is not among the sources.  It is
  modelled as the record of what the macro declares to it: after the spec's glossary a
  spectator is a field that is not used for training but is available for computations
  such as the assignment to folds, so variables and spectators are kept apart, each with
  the letter of its type, and the trees and the options are stored as given.
\<close>

record DataLoader =
  dl_name :: string
  dl_variables :: "(string \<times> char) list"
  dl_spectators :: "(string \<times> char) list"
  dl_signal :: "(TTree \<times> Double_t) list"
  dl_background :: "(TTree \<times> Double_t) list"
  dl_prepared :: "(string \<times> string \<times> string) option"

definition DataLoader_new :: "string \<Rightarrow> DataLoader" where
  "DataLoader_new name =
     \<lparr>dl_name = name, dl_variables = [], dl_spectators = [], dl_signal = [],
      dl_background = [], dl_prepared = None\<rparr>"

definition AddVariable :: "DataLoader \<Rightarrow> string \<Rightarrow> char \<Rightarrow> DataLoader" where
  "AddVariable dl name ty = dl\<lparr>dl_variables := dl_variables dl @ [(name, ty)]\<rparr>"

definition AddSpectator :: "DataLoader \<Rightarrow> string \<Rightarrow> char \<Rightarrow> DataLoader" where
  "AddSpectator dl name ty = dl\<lparr>dl_spectators := dl_spectators dl @ [(name, ty)]\<rparr>"

definition AddSignalTree :: "DataLoader \<Rightarrow> TTree \<Rightarrow> Double_t \<Rightarrow> DataLoader" where
  "AddSignalTree dl t w = dl\<lparr>dl_signal := dl_signal dl @ [(t, w)]\<rparr>"

definition AddBackgroundTree :: "DataLoader \<Rightarrow> TTree \<Rightarrow> Double_t \<Rightarrow> DataLoader" where
  "AddBackgroundTree dl t w = dl\<lparr>dl_background := dl_background dl @ [(t, w)]\<rparr>"

definition PrepareTrainingAndTestTree ::
  "DataLoader \<Rightarrow> string \<Rightarrow> string \<Rightarrow> string \<Rightarrow> DataLoader" where
  "PrepareTrainingAndTestTree dl sigcut bkgcut opts = dl\<lparr>dl_prepared := Some (sigcut, bkgcut, opts)\<rparr>"

text \<open>The names a split expression has access to: the variables and the spectators.\<close>

definition dl_declared :: "DataLoader \<Rightarrow> string list" where
  "dl_declared dl = map fst (dl_variables dl) @ map fst (dl_spectators dl)"

text \<open>
  The options of the cross validation (lines 167 to 173): \<^verbatim>\<open>Form\<close> puts the analysis type,
  the number of folds and the split expression into the format.  The conversion \<^verbatim>\<open>%i\<close>
  prints its argument, the unsigned \<^verbatim>\<open>numFolds\<close>, as a signed integer in decimal.
\<close>

function show_nat :: "nat \<Rightarrow> string" where
  "show_nat n =
     (if n < 10 then [''0123456789'' ! n]
      else show_nat (n div 10) @ [''0123456789'' ! (n mod 10)])"
  by pat_completeness auto

termination show_nat
  by (relation "measure id") auto

definition show_int :: "int \<Rightarrow> string" where
  "show_int i = (if i < 0 then CHR ''-'' # show_nat (nat (- i)) else show_nat (nat i))"

definition Form_cvOptions :: "string \<Rightarrow> UInt_t \<Rightarrow> string \<Rightarrow> string" where
  "Form_cvOptions aType nf expr =
     ''!V:!Silent:ModelPersistence:AnalysisType='' @ aType @
     '':NumFolds='' @ show_int (sint nf) @
     '':SplitExpr='' @ expr"

text \<open>
  \<^verbatim>\<open>TMVACrossEvaluation\<close> up to the construction of the cross validation: the two trees,
  the name of the output file, the dataloader, the three values the macro formats into
  the options of the cross validation, and the options.  The framework's own work (the
  file it opens under that name, booking a method, \<^verbatim>\<open>Evaluate\<close>, the results it prints)
  is not modelled.
\<close>

record cv_setup =
  su_sigTree :: TTree
  su_bkgTree :: TTree
  su_outfileName :: string
  su_dataloader :: DataLoader
  su_numFolds :: UInt_t
  su_analysisType :: string
  su_splitExpr :: string
  su_cvOptions :: string

definition TMVACrossEvaluation ::
  "(UInt_t \<Rightarrow> 'r) \<Rightarrow> ('r \<Rightarrow> Double_t \<Rightarrow> Double_t \<Rightarrow> Double_t \<times> 'r) \<Rightarrow> cv_setup option" where
  "TMVACrossEvaluation TRandom3 Gaus =
     (case genTree TRandom3 Gaus 1000 1.0 1.0 100 of
        None \<Rightarrow> None
      | Some sigTree \<Rightarrow>
          (case genTree TRandom3 Gaus 1000 (- 1.0) 1.0 101 of
             None \<Rightarrow> None
           | Some bkgTree \<Rightarrow>
               (let outfileName = ''TMVA.root'';
                    dataloader = DataLoader_new ''dataset'';
                    dataloader = AddVariable dataloader ''x'' (CHR ''F'');
                    dataloader = AddVariable dataloader ''y'' (CHR ''F'');
                    dataloader = AddSpectator dataloader ''eventID'' (CHR ''I'');
                    dataloader = AddSignalTree dataloader sigTree 1.0;
                    dataloader = AddBackgroundTree dataloader bkgTree 1.0;
                    dataloader = PrepareTrainingAndTestTree dataloader [] []
                      ''nTest_Signal=1:nTest_Background=1:SplitMode=Random:NormMode=NumEvents:!V''
                in Some \<lparr>su_sigTree = sigTree, su_bkgTree = bkgTree,
                         su_outfileName = outfileName, su_dataloader = dataloader,
                         su_numFolds = numFolds, su_analysisType = analysisType,
                         su_splitExpr = splitExpr,
                         su_cvOptions = Form_cvOptions analysisType numFolds splitExpr\<rparr>)))"

text \<open>The fold the cross validation of a setup assigns to an event.\<close>

definition fold_of :: "cv_setup \<Rightarrow> entry \<Rightarrow> val option" where
  "fold_of su ev =
     EvalSplit (su_splitExpr su) (dl_declared (su_dataloader su)) (uint (su_numFolds su)) ev"

section \<open>Properties of the split expression\<close>

text \<open>The string of line 165 parses to the remainder of two conversions to \<^verbatim>\<open>int\<close>.\<close>

lemma parse_splitExpr:
  "parse_formula splitExpr = Some (Mod (IntCast (Fabs (Par ''eventID''))) (IntCast (Par ''NumFolds'')))"
  by code_simp

text \<open>The value of a formula depends on the parameters that occur in it, and on no other.\<close>

lemma EvalPar_cong:
  "(\<And>n. n \<in> set (formula_params f) \<Longrightarrow> p n = q n) \<Longrightarrow> EvalPar p f = EvalPar q f"
proof (induction f)
  case (Par n)
  then show ?case by simp
next
  case (Fabs f)
  then show ?case by simp
next
  case (IntCast f)
  then show ?case by simp
next
  case (Mod f g)
  have a: "EvalPar p f = EvalPar q f" using Mod by simp
  have b: "EvalPar p g = EvalPar q g" using Mod by simp
  show ?case by (simp only: EvalPar.simps a b)
qed

text \<open>
  The parameters restricted to what the split expression of the macro reads: the number
  of folds and, when it is declared, the field \<^verbatim>\<open>eventID\<close> of the event.
\<close>

definition id_params :: "bool \<Rightarrow> leaf option \<Rightarrow> int \<Rightarrow> string \<Rightarrow> Double_t option" where
  "id_params decl e nf name =
     (if name = ''NumFolds'' \<or> name = ''numFolds'' then Some (of_int nf)
      else if name = ''eventID'' \<and> decl then map_option leaf_value e
      else None)"

lemma EvalSplit_eventID:
  "EvalSplit splitExpr declared nf ev =
    EvalPar (id_params (''eventID'' \<in> set declared) (map_of ev ''eventID'') nf)
      (Mod (IntCast (Fabs (Par ''eventID''))) (IntCast (Par ''NumFolds'')))"
proof -
  have "EvalPar (split_params declared nf ev)
          (Mod (IntCast (Fabs (Par ''eventID''))) (IntCast (Par ''NumFolds''))) =
        EvalPar (id_params (''eventID'' \<in> set declared) (map_of ev ''eventID'') nf)
          (Mod (IntCast (Fabs (Par ''eventID''))) (IntCast (Par ''NumFolds'')))"
    by (rule EvalPar_cong) (auto simp: split_params_def id_params_def)
  then show ?thesis by (simp add: EvalSplit_def parse_splitExpr)
qed

text \<open>Within the range of \<^verbatim>\<open>int\<close> the expression is the remainder of the absolute value.\<close>

lemma c_int_of_int:
  "- (2 ^ 31) \<le> i \<Longrightarrow> i < 2 ^ 31 \<Longrightarrow> c_int (of_int i) = Some i"
  by (simp add: c_int_def)

lemma EvalPar_split_in_range:
  assumes "\<bar>e\<bar> < 2 ^ 31" "0 < k" "k < 2 ^ 31"
  shows "EvalPar (id_params True (Some (LeafI e)) k)
      (Mod (IntCast (Fabs (Par ''eventID''))) (IntCast (Par ''NumFolds''))) =
    Some (IntV (\<bar>e\<bar> mod k))"
proof -
  have a: "c_int \<bar>real_of_int e\<bar> = Some \<bar>e\<bar>"
    using c_int_of_int [of "\<bar>e\<bar>"] assms(1) by simp
  have b: "c_int (real_of_int k) = Some k"
    using c_int_of_int [of k] assms(2,3) by simp
  have c: "c_mod \<bar>e\<bar> k = Some (\<bar>e\<bar> mod k)"
  proof (cases "e = 0")
    case True
    with assms show ?thesis by (simp add: c_mod_def)
  next
    case False
    then have "sgn \<bar>e\<bar> = 1" by simp
    with assms show ?thesis by (simp add: c_mod_def)
  qed
  show ?thesis by (simp add: id_params_def a b c)
qed

lemma EvalSplit_in_range:
  assumes "''eventID'' \<in> set declared" "map_of ev ''eventID'' = Some (LeafI e)"
    "\<bar>e\<bar> < 2 ^ 31" "0 < k" "k < 2 ^ 31"
  shows "EvalSplit splitExpr declared k ev = Some (IntV (\<bar>e\<bar> mod k))"
  using EvalPar_split_in_range [OF assms(3,4,5)] assms(1,2)
  by (simp add: EvalSplit_eventID)

text \<open>
  C1: the assignment to folds is deterministic.  The value of the split expression
  \<^verbatim>\<open>int(fabs([eventID]))%int([NumFolds])\<close> for an event is determined by the identifier
  of the event and the number of folds: two events with the same \<^verbatim>\<open>eventID\<close> get the same
  value for the same number of folds, whatever their other fields \<open>x\<close> and \<open>y\<close> are and
  whatever else is declared to the dataloader.  This includes the events for which the
  expression is undefined: it is then undefined for both.
\<close>

theorem split_deterministic:
  assumes "map_of ev1 ''eventID'' = map_of ev2 ''eventID''"
  shows "EvalSplit splitExpr declared k ev1 = EvalSplit splitExpr declared k ev2"
proof -
  have "EvalSplit splitExpr declared k ev1 =
      EvalPar (id_params (''eventID'' \<in> set declared) (map_of ev1 ''eventID'') k)
        (Mod (IntCast (Fabs (Par ''eventID''))) (IntCast (Par ''NumFolds'')))"
    by (rule EvalSplit_eventID)
  also have "\<dots> =
      EvalPar (id_params (''eventID'' \<in> set declared) (map_of ev2 ''eventID'') k)
        (Mod (IntCast (Fabs (Par ''eventID''))) (IntCast (Par ''NumFolds'')))"
    by (simp only: assms)
  also have "\<dots> = EvalSplit splitExpr declared k ev2"
    by (rule EvalSplit_eventID [symmetric])
  finally show ?thesis .
qed

text \<open>Two events that differ in \<open>x\<close> and \<open>y\<close> and share the identifier 7.\<close>

theorem split_deterministic_witness:
  "map_of [(''x'', LeafD 0.5), (''y'', LeafD (- 2)), (''eventID'', LeafI 7)] ''eventID'' =
     map_of [(''x'', LeafD 3), (''y'', LeafD 1.5), (''eventID'', LeafI 7)] ''eventID'' \<and>
   EvalSplit splitExpr [''x'', ''y'', ''eventID''] 2
       [(''x'', LeafD 0.5), (''y'', LeafD (- 2)), (''eventID'', LeafI 7)] =
     EvalSplit splitExpr [''x'', ''y'', ''eventID''] 2
       [(''x'', LeafD 3), (''y'', LeafD 1.5), (''eventID'', LeafI 7)]"
  using split_deterministic [of "[(''x'', LeafD 0.5), (''y'', LeafD (- 2)), (''eventID'', LeafI 7)]"
      "[(''x'', LeafD 3), (''y'', LeafD 1.5), (''eventID'', LeafI 7)]" "[''x'', ''y'', ''eventID'']" 2]
  by simp

text \<open>
  C2, as amended: for every event whose identifier \<open>e\<close> has a magnitude below \<open>2 ^ 31\<close>
  and every number of folds \<open>k\<close> with \<open>1 \<le> k < 2 ^ 31\<close>, the split expression has a
  value, an integer in the range \<open>0 .. k - 1\<close>.  The bounds are those of the type \<^verbatim>\<open>int\<close>
  the expression converts to.
\<close>

theorem split_fold_in_range:
  assumes "''eventID'' \<in> set declared" and "map_of ev ''eventID'' = Some (LeafI e)"
    and "\<bar>e\<bar> < 2 ^ 31" and "1 \<le> k" and "k < 2 ^ 31"
  shows "\<exists>r. EvalSplit splitExpr declared k ev = Some (IntV r) \<and> 0 \<le> r \<and> r < k"
proof -
  have "EvalSplit splitExpr declared k ev = Some (IntV (\<bar>e\<bar> mod k))"
    using assms by (intro EvalSplit_in_range) auto
  moreover have "0 \<le> \<bar>e\<bar> mod k" "\<bar>e\<bar> mod k < k"
    using assms(4) by simp_all
  ultimately show ?thesis by blast
qed

text \<open>The event with the identifier \<open>-7\<close> and three folds.\<close>

theorem split_fold_in_range_witness:
  "''eventID'' \<in> set [''x'', ''y'', ''eventID''] \<and>
   map_of [(''x'', LeafD 0.5), (''y'', LeafD 2), (''eventID'', LeafI (- 7))] ''eventID'' = Some (LeafI (- 7)) \<and>
   \<bar>- 7 :: int\<bar> < 2 ^ 31 \<and> (1 :: int) \<le> 3 \<and> (3 :: int) < 2 ^ 31 \<and>
   (\<exists>r. EvalSplit splitExpr [''x'', ''y'', ''eventID''] 3
          [(''x'', LeafD 0.5), (''y'', LeafD 2), (''eventID'', LeafI (- 7))] = Some (IntV r) \<and> 0 \<le> r \<and> r < 3)"
  using split_fold_in_range [of "[''x'', ''y'', ''eventID'']"
      "[(''x'', LeafD 0.5), (''y'', LeafD 2), (''eventID'', LeafI (- 7))]" "- 7" 3]
  by simp

text \<open>
  C2 as stated, for every integer identifier, fails at the least 32-bit integer, which the
  spectator of type \<^verbatim>\<open>I\<close> can hold: \<^verbatim>\<open>fabs\<close> gives \<open>2 ^ 31\<close>, which \<^verbatim>\<open>int(...)\<close> cannot
  convert, so the expression has no value and the event gets no fold.
\<close>

theorem split_fold_least_int_undefined:
  "EvalSplit splitExpr [''x'', ''y'', ''eventID''] 3
     [(''x'', LeafD 0.5), (''y'', LeafD 2), (''eventID'', LeafI (- 2147483648))] = None"
  by (simp add: EvalSplit_def parse_splitExpr split_params_def c_int_def)






text \<open>
  At the least 32-bit integer neither expression gives a fold index, and at the greatest
  both give the same one.
\<close>

lemma spec_fold_at_int_bounds:
  "spec_fold (- 2147483648) 3 = None"
  "EvalSplit splitExpr [''x'', ''y'', ''eventID''] (sint (3 :: Int_t))
     [(''x'', LeafD 1.25), (''y'', LeafD 0), (''eventID'', LeafI (- 2147483648))] = None"
  "spec_fold 2147483647 3 = Some 1"
  "EvalSplit splitExpr [''x'', ''y'', ''eventID''] (sint (3 :: Int_t))
     [(''x'', LeafD 1.25), (''y'', LeafD 0), (''eventID'', LeafI 2147483647)] = Some (IntV 1)"
  by (simp_all add: spec_fold_def EvalSplit_def parse_splitExpr split_params_def c_int_def c_mod_def)

section \<open>Properties of the setup of the cross validation\<close>

text \<open>\<^verbatim>\<open>TMVACrossEvaluation\<close> reaches the cross validation for every random generator.\<close>

lemma TMVACrossEvaluation_setup:
  "\<exists>su. TMVACrossEvaluation TRandom3 Gaus = Some su
     \<and> dl_variables (su_dataloader su) = [(''x'', CHR ''F''), (''y'', CHR ''F'')]
     \<and> dl_spectators (su_dataloader su) = [(''eventID'', CHR ''I'')]
     \<and> su_numFolds su = 2
     \<and> su_splitExpr su = splitExpr
     \<and> su_outfileName su = ''TMVA.root''
     \<and> map (\<lambda>e. map_of e ''eventID'') (t_entries (su_sigTree su)) = map (\<lambda>i. Some (LeafI i)) [1 .. 1000]
     \<and> map (\<lambda>e. map_of e ''eventID'') (t_entries (su_bkgTree su)) = map (\<lambda>i. Some (LeafI i)) [1 .. 1000]"
proof -
  from genTree_result [of TRandom3 Gaus 1000 1 1 100]
  obtain s where s: "genTree TRandom3 Gaus 1000 1 1 100 = Some s"
    and si: "map (\<lambda>e. map_of e ''eventID'') (t_entries s) = map (\<lambda>i. Some (LeafI i)) [1 .. 1000]"
    by auto
  from genTree_result [of TRandom3 Gaus 1000 "- 1" 1 101]
  obtain b where b: "genTree TRandom3 Gaus 1000 (- 1) 1 101 = Some b"
    and bi: "map (\<lambda>e. map_of e ''eventID'') (t_entries b) = map (\<lambda>i. Some (LeafI i)) [1 .. 1000]"
    by auto
  show ?thesis
    using s b si bi
    by (simp add: TMVACrossEvaluation_def Let_def DataLoader_new_def AddVariable_def
        AddSpectator_def AddSignalTree_def AddBackgroundTree_def
        PrepareTrainingAndTestTree_def numFolds_def)
qed

text \<open>The options the macro hands to the cross validation.\<close>

lemma cvOptions_value:
  "Form_cvOptions analysisType numFolds splitExpr =
     ''!V:!Silent:ModelPersistence:AnalysisType=Classification:NumFolds=2:SplitExpr=int(fabs([eventID]))%int([NumFolds])''"
  by (simp add: Form_cvOptions_def analysisType_def numFolds_def splitExpr_def show_int_def)

lemma split_fields_splitExpr: "split_fields splitExpr = Some [''eventID'']"
  by (simp add: split_fields_def parse_splitExpr)

text \<open>
  C4: \<^verbatim>\<open>eventID\<close> is a spectator and not a training variable.  The variables the macro
  declares for training are exactly \<open>x\<close> and \<open>y\<close>, \<^verbatim>\<open>eventID\<close> is declared as a spectator
  only (and is the only spectator), and \<^verbatim>\<open>eventID\<close> is the only field of an event the split
  expression refers to.
\<close>

theorem eventID_spectator_only:
  "\<exists>su. TMVACrossEvaluation TRandom3 Gaus = Some su
     \<and> set (map fst (dl_variables (su_dataloader su))) = {''x'', ''y''}
     \<and> map fst (dl_spectators (su_dataloader su)) = [''eventID'']
     \<and> ''eventID'' \<notin> set (map fst (dl_variables (su_dataloader su)))
     \<and> split_fields (su_splitExpr su) = Some [''eventID'']"
proof -
  from TMVACrossEvaluation_setup [of TRandom3 Gaus]
  obtain su where "TMVACrossEvaluation TRandom3 Gaus = Some su"
    and "dl_variables (su_dataloader su) = [(''x'', CHR ''F''), (''y'', CHR ''F'')]"
    and "dl_spectators (su_dataloader su) = [(''eventID'', CHR ''I'')]"
    and "su_splitExpr su = splitExpr"
    by blast
  then show ?thesis by (simp add: split_fields_splitExpr)
qed

text \<open>Among the integers from 1 to \<open>2 * n\<close>, \<open>n\<close> are even and \<open>n\<close> are odd.\<close>

lemma upto_two_more:
  "0 \<le> n \<Longrightarrow> [1 .. 2 * (n + 1)] = [1 .. 2 * n] @ [2 * n + 1, 2 * n + 2]"
proof -
  assume n: "0 \<le> (n::int)"
  have "[1 .. 2 * (n + 1)] = [1 .. 2 * n + 1] @ [2 * n + 2]"
    using n upto_rec2 [of 1 "2 * (n + 1)"] by (simp add: algebra_simps)
  also have "[1 .. 2 * n + 1] = [1 .. 2 * n] @ [2 * n + 1]"
    using n upto_rec2 [of 1 "2 * n + 1"] by simp
  finally show ?thesis by simp
qed

lemma count_parity_upto:
  "length (filter (\<lambda>i. i mod 2 = 0) [1 .. 2 * int n]) = n \<and>
   length (filter (\<lambda>i. i mod 2 = 1) [1 .. 2 * int n]) = n"
proof (induction n)
  case 0
  show ?case by simp
next
  case (Suc n)
  have "[1 .. 2 * int (Suc n)] = [1 .. 2 * int n] @ [2 * int n + 1, 2 * int n + 2]"
    using upto_two_more [of "int n"] by (simp add: algebra_simps)
  moreover have "(2 * int n + 1) mod 2 = 1" "(2 * int n + 2) mod 2 = 0"
    by presburger+
  ultimately show ?case using Suc by simp
qed

lemma count_parity_1000:
  "length (filter (\<lambda>i. i mod 2 = 0) [1 .. (1000::int)]) = 500"
  "length (filter (\<lambda>i. i mod 2 = 1) [1 .. (1000::int)]) = 500"
  using count_parity_upto [of 500] by simp_all

text \<open>The folds of the events of a tree whose identifiers are 1 to 1000, for two folds.\<close>

lemma fold_of_by_id:
  assumes "dl_spectators (su_dataloader su) = [(''eventID'', CHR ''I'')]"
    and "su_numFolds su = 2" and "su_splitExpr su = splitExpr"
    and "map (\<lambda>e. map_of e ''eventID'') es = map (\<lambda>i. Some (LeafI i)) [1 .. 1000]"
  shows "map (fold_of su) es = map (\<lambda>i. Some (IntV (i mod 2))) [1 .. 1000]"
proof -
  define g where "g = (\<lambda>oe. EvalPar (id_params True oe 2)
      (Mod (IntCast (Fabs (Par ''eventID''))) (IntCast (Par ''NumFolds''))))"
  have decl: "''eventID'' \<in> set (dl_declared (su_dataloader su))"
    using assms(1) by (simp add: dl_declared_def)
  have "fold_of su ev = g (map_of ev ''eventID'')" for ev
    using decl assms(2,3) by (simp add: fold_of_def EvalSplit_eventID g_def)
  then have "map (fold_of su) es = map g (map (\<lambda>e. map_of e ''eventID'') es)"
    by simp
  also have "\<dots> = map (\<lambda>i. g (Some (LeafI i))) [1 .. 1000]"
    by (simp only: assms(4) map_map comp_def)
  also have "\<dots> = map (\<lambda>i. Some (IntV (i mod 2))) [1 .. 1000]"
  proof (rule map_cong [OF refl])
    fix i :: int assume "i \<in> set [1 .. 1000]"
    then have i: "1 \<le> i" "i \<le> 1000" by simp_all
    then have "\<bar>i\<bar> < 2 ^ 31" by simp
    from EvalPar_split_in_range [OF this, of 2] i
    show "g (Some (LeafI i)) = Some (IntV (i mod 2))" by (simp add: g_def)
  qed
  finally show ?thesis .
qed

lemma count_by_map:
  assumes "map f es = map h js"
  shows "length (filter (\<lambda>e. f e = v) es) = length (filter (\<lambda>j. h j = v) js)"
proof -
  have "length (filter (\<lambda>e. f e = v) es) = length (filter (\<lambda>y. y = v) (map f es))"
    by (simp add: filter_map comp_def)
  also have "\<dots> = length (filter (\<lambda>j. h j = v) js)"
    by (simp add: assms filter_map comp_def)
  finally show ?thesis .
qed

text \<open>
  C10: with the two folds the macro configures and the identifiers 1 to 1000 of each of
  its two trees, the split expression assigns the events with an odd identifier to fold 1
  and those with an even identifier to fold 0, so each fold gets exactly 500 events of
  the signal tree and exactly 500 events of the background tree.
\<close>

theorem two_folds_500_each:
  "\<exists>su. TMVACrossEvaluation TRandom3 Gaus = Some su
     \<and> uint (su_numFolds su) = 2
     \<and> map (fold_of su) (t_entries (su_sigTree su)) = map (\<lambda>i. Some (IntV (i mod 2))) [1 .. 1000]
     \<and> map (fold_of su) (t_entries (su_bkgTree su)) = map (\<lambda>i. Some (IntV (i mod 2))) [1 .. 1000]
     \<and> length (filter (\<lambda>ev. fold_of su ev = Some (IntV 0)) (t_entries (su_sigTree su))) = 500
     \<and> length (filter (\<lambda>ev. fold_of su ev = Some (IntV 1)) (t_entries (su_sigTree su))) = 500
     \<and> length (filter (\<lambda>ev. fold_of su ev = Some (IntV 0)) (t_entries (su_bkgTree su))) = 500
     \<and> length (filter (\<lambda>ev. fold_of su ev = Some (IntV 1)) (t_entries (su_bkgTree su))) = 500"
proof -
  from TMVACrossEvaluation_setup [of TRandom3 Gaus]
  obtain su where su: "TMVACrossEvaluation TRandom3 Gaus = Some su"
    and sp: "dl_spectators (su_dataloader su) = [(''eventID'', CHR ''I'')]"
    and nf: "su_numFolds su = 2"
    and ex: "su_splitExpr su = splitExpr"
    and si: "map (\<lambda>e. map_of e ''eventID'') (t_entries (su_sigTree su)) = map (\<lambda>i. Some (LeafI i)) [1 .. 1000]"
    and bi: "map (\<lambda>e. map_of e ''eventID'') (t_entries (su_bkgTree su)) = map (\<lambda>i. Some (LeafI i)) [1 .. 1000]"
    by blast
  have fs: "map (fold_of su) (t_entries (su_sigTree su)) = map (\<lambda>i. Some (IntV (i mod 2))) [1 .. 1000]"
    by (rule fold_of_by_id [OF sp nf ex si])
  have fb: "map (fold_of su) (t_entries (su_bkgTree su)) = map (\<lambda>i. Some (IntV (i mod 2))) [1 .. 1000]"
    by (rule fold_of_by_id [OF sp nf ex bi])
  have s0: "length (filter (\<lambda>ev. fold_of su ev = Some (IntV 0)) (t_entries (su_sigTree su))) = 500"
    using count_by_map [OF fs, of "Some (IntV 0)"] count_parity_1000 by simp
  have s1: "length (filter (\<lambda>ev. fold_of su ev = Some (IntV 1)) (t_entries (su_sigTree su))) = 500"
    using count_by_map [OF fs, of "Some (IntV 1)"] count_parity_1000 by simp
  have b0: "length (filter (\<lambda>ev. fold_of su ev = Some (IntV 0)) (t_entries (su_bkgTree su))) = 500"
    using count_by_map [OF fb, of "Some (IntV 0)"] count_parity_1000 by simp
  have b1: "length (filter (\<lambda>ev. fold_of su ev = Some (IntV 1)) (t_entries (su_bkgTree su))) = 500"
    using count_by_map [OF fb, of "Some (IntV 1)"] count_parity_1000 by simp
  have "uint (su_numFolds su) = 2" using nf by simp
  with su fs fb s0 s1 b0 b1 show ?thesis by blast
qed

section \<open>The histogram macro \<^verbatim>\<open>simple\<close> (simple.cxx, lines 19 to 45)\<close>

text \<open>
  Modelled from the spec: the histogram, fit and file classes of the framework
  (\<^verbatim>\<open>TAxisConfig\<close>, \<^verbatim>\<open>TH2D\<close>, \<^verbatim>\<open>TFunction\<close>, \<^verbatim>\<open>FitTo\<close>, \<^verbatim>\<open>TFile\<close>) are not among the
  sources; the spec names the workflow of the macro: the creation of a histogram, a fit,
  and a write to a file.  A histogram is modelled by its two axes and the fills it has
  received, a file by the objects written to it under their keys.  The fit itself is a
  parameter.  Every call of the framework is appended to a log, with the histogram as it
  is when the call is made, so that the order of the calls can be stated.
\<close>

datatype TAxisConfig = Equidistant nat Double_t Double_t | Irregular "Double_t list"

record TH2D =
  h_xaxis :: TAxisConfig
  h_yaxis :: TAxisConfig
  h_fills :: "((Double_t \<times> Double_t) \<times> Double_t) list"

datatype call =
    Call_TH2D TAxisConfig TAxisConfig
  | Call_Fill TH2D "Double_t \<times> Double_t"
  | Call_FitTo TH2D "Double_t list"
  | Call_Recreate string
  | Call_Write string string TH2D

record world =
  w_files :: "(string \<times> (string \<times> TH2D) list) list"
  w_log :: "call list"

definition logged :: "call \<Rightarrow> world \<Rightarrow> world" where
  "logged c w = w\<lparr>w_log := w_log w @ [c]\<rparr>"

definition TH2D_ctor :: "TAxisConfig \<Rightarrow> TAxisConfig \<Rightarrow> world \<Rightarrow> TH2D \<times> world" where
  "TH2D_ctor xa ya w =
     (\<lparr>h_xaxis = xa, h_yaxis = ya, h_fills = []\<rparr>, logged (Call_TH2D xa ya) w)"

text \<open>\<^verbatim>\<open>Fill\<close> with coordinates only fills the weight 1 (line 33).\<close>

definition TH2D_Fill :: "TH2D \<Rightarrow> Double_t \<times> Double_t \<Rightarrow> world \<Rightarrow> TH2D \<times> world" where
  "TH2D_Fill h coords w =
     (h\<lparr>h_fills := h_fills h @ [(coords, 1)]\<rparr>, logged (Call_Fill h coords) w)"

type_synonym TFunction2 = "Double_t \<times> Double_t \<Rightarrow> Double_t list \<Rightarrow> Double_t option"

definition FitTo ::
  "(TH2D \<Rightarrow> TFunction2 \<Rightarrow> Double_t list \<Rightarrow> 'f) \<Rightarrow>
     TH2D \<Rightarrow> TFunction2 \<Rightarrow> Double_t list \<Rightarrow> world \<Rightarrow> 'f \<times> world" where
  "FitTo fit h f par w = (fit h f par, logged (Call_FitTo h par) w)"

definition TFile_Recreate :: "string \<Rightarrow> world \<Rightarrow> string \<times> world" where
  "TFile_Recreate name w =
     (name, logged (Call_Recreate name)
        (w\<lparr>w_files := (name, []) # filter (\<lambda>(n, c). n \<noteq> name) (w_files w)\<rparr>))"

definition TFile_Write :: "string \<Rightarrow> string \<Rightarrow> TH2D \<Rightarrow> world \<Rightarrow> world" where
  "TFile_Write file key h w =
     logged (Call_Write file key h)
       (w\<lparr>w_files := map (\<lambda>(n, c). if n = file then (n, c @ [(key, h)]) else (n, c)) (w_files w)\<rparr>)"

text \<open>
  The function of lines 37 to 39, \<^verbatim>\<open>par[0]*x[0]*x[0] + (par[1]-x[1])*x[1]\<close>: \<open>x\<close> is an
  array of two doubles, \<open>par\<close> a view of the parameters; reading a parameter the view does
  not have is undefined.
\<close>

definition func :: TFunction2 where
  "func x par =
     (case par of
        p0 # p1 # rest \<Rightarrow> Some (p0 * fst x * fst x + (p1 - snd x) * snd x)
      | _ \<Rightarrow> None)"

definition simple ::
  "(TH2D \<Rightarrow> TFunction2 \<Rightarrow> Double_t list \<Rightarrow> 'f) \<Rightarrow> world \<Rightarrow> 'f \<times> world" where
  "simple fit w =
     (let xAxis = Equidistant 100 0 1;
          yAxis = Irregular [0, 1, 2, 3, 10];
          (histFromVars, w) = TH2D_ctor xAxis yAxis w;
          (hist, w) = TH2D_ctor (Equidistant 100 0 1) (Irregular [0, 1, 2, 3, 10]) w;
          (hist, w) = TH2D_Fill hist (0.01, 1.02) w;
          (fitResult, w) = FitTo fit hist func [0, 1] w;
          (file, w) = TFile_Recreate ''hist.root'' w;
          w = TFile_Write file ''TheHist'' hist w
      in (fitResult, w))"

definition world_init :: world where
  "world_init = \<lparr>w_files = [], w_log = []\<rparr>"

text \<open>The file the macro leaves behind holds the histogram with its one fill.\<close>

lemma simple_files:
  "w_files (snd (simple fit world_init)) =
     [(''hist.root'',
       [(''TheHist'', \<lparr>h_xaxis = Equidistant 100 0 1, h_yaxis = Irregular [0, 1, 2, 3, 10],
                       h_fills = [((0.01, 1.02), 1)]\<rparr>)])]"
  by (simp add: simple_def Let_def TH2D_ctor_def TH2D_Fill_def FitTo_def TFile_Recreate_def
      TFile_Write_def logged_def world_init_def)

text \<open>
  C6: \<^verbatim>\<open>simple\<close> performs the workflow in the order the spec names it.  The calls it
  adds to the log are, in this order: the creation of the two histograms, one fill of the
  empty histogram at the coordinate (0.01, 1.02), the fit of the histogram that holds this
  fill, with two initial parameters, the creation of the file \<^verbatim>\<open>hist.root\<close>, and the write
  of the filled histogram under the key \<^verbatim>\<open>TheHist\<close>.  The fitted function reads two
  parameters: it has a value on two parameters, which further parameters do not change.
\<close>

theorem simple_workflow_order:
  "w_log (snd (simple fit w)) = w_log w @
     [Call_TH2D (Equidistant 100 0 1) (Irregular [0, 1, 2, 3, 10]),
      Call_TH2D (Equidistant 100 0 1) (Irregular [0, 1, 2, 3, 10]),
      Call_Fill \<lparr>h_xaxis = Equidistant 100 0 1, h_yaxis = Irregular [0, 1, 2, 3, 10], h_fills = []\<rparr>
        (0.01, 1.02),
      Call_FitTo \<lparr>h_xaxis = Equidistant 100 0 1, h_yaxis = Irregular [0, 1, 2, 3, 10],
                  h_fills = [((0.01, 1.02), 1)]\<rparr> [0, 1],
      Call_Recreate ''hist.root'',
      Call_Write ''hist.root'' ''TheHist''
        \<lparr>h_xaxis = Equidistant 100 0 1, h_yaxis = Irregular [0, 1, 2, 3, 10],
         h_fills = [((0.01, 1.02), 1)]\<rparr>]
   \<and> (\<forall>x p0 p1 rest. func x (p0 # p1 # rest) = func x [p0, p1] \<and> func x [p0, p1] \<noteq> None)
   \<and> (\<forall>x p0. func x [p0] = None)"
  by (simp add: simple_def Let_def TH2D_ctor_def TH2D_Fill_def FitTo_def TFile_Recreate_def
      TFile_Write_def logged_def func_def)

end
